theory Spec2Isabelle
  imports Complex_Main "HOL-Library.Word" "HOL-Library.AList"
begin

section \<open>Data model of package goajax\<close>

text \<open>
  The package is a JSON-RPC server on top of Go's \<^verbatim>\<open>reflect\<close>, \<^verbatim>\<open>json\<close>,
  \<^verbatim>\<open>strings\<close> and \<^verbatim>\<open>http\<close> packages. The embedding keeps the control flow of
  \<^verbatim>\<open>register\<close>, \<^verbatim>\<open>ServeHTTP\<close>, \<^verbatim>\<open>sendError\<close> and \<^verbatim>\<open>getParams\<close> as written;
  the library functions they call are parameters (record \<open>golib\<close>), so the theorems
  about \<open>L\<close> hold for any behaviour of the library. A runtime panic is a value (\<open>Panic\<close>), the
  effects of a dispatch on the registry and on the response writer are a list of actions.
\<close>

type_synonym RawMessage = string

text \<open>
  \<^verbatim>\<open>reflect.Type\<close>. The code tells three concrete types apart by type assertion
  (\<^verbatim>\<open>*reflect.PtrType\<close>, \<^verbatim>\<open>*reflect.FloatType\<close>, \<^verbatim>\<open>*reflect.IntType\<close>) and compares types
  for identity. Every other kind of type is \<open>OtherType\<close>. The strings are \<^verbatim>\<open>PkgPath()\<close>,
  \<^verbatim>\<open>Name()\<close> and, for the types that may be unnamed, \<^verbatim>\<open>String()\<close>.
\<close>

datatype rtype =
    PtrType rtype
  | FloatType string string
  | IntType string string
  | OtherType string string string

fun PkgPath :: "rtype \<Rightarrow> string" where
  "PkgPath (PtrType e) = []"
| "PkgPath (FloatType p n) = p"
| "PkgPath (IntType p n) = p"
| "PkgPath (OtherType p n s) = p"

fun Name :: "rtype \<Rightarrow> string" where
  "Name (PtrType e) = []"
| "Name (FloatType p n) = n"
| "Name (IntType p n) = n"
| "Name (OtherType p n s) = n"

fun isPtrType :: "rtype \<Rightarrow> bool" where
  "isPtrType (PtrType e) = True"
| "isPtrType t = False"

fun isFloatType :: "rtype \<Rightarrow> bool" where
  "isFloatType (FloatType p n) = True"
| "isFloatType t = False"

fun isIntType :: "rtype \<Rightarrow> bool" where
  "isIntType (IntType p n) = True"
| "isIntType t = False"

definition float64Type :: rtype where
  "float64Type = FloatType [] ''float64''"

definition boolType :: rtype where
  "boolType = OtherType [] ''bool'' ''bool''"

definition stringType :: rtype where
  "stringType = OtherType [] ''string'' ''string''"

definition sliceType :: rtype where
  "sliceType = OtherType [] [] ''[]interface { }''"

definition mapType :: rtype where
  "mapType = OtherType [] [] ''map[string] interface { }''"

text \<open>\<^verbatim>\<open>typeOfOsError\<close>: the reflect type of \<^verbatim>\<open>os.Error\<close>.\<close>

definition typeOfOsError :: rtype where
  "typeOfOsError = OtherType ''os'' ''Error'' ''os.Error''"

text \<open>
  What \<^verbatim>\<open>json.Unmarshal\<close> stores into an \<^verbatim>\<open>interface{}\<close>: nil for null, a bool,
  a float64, a string, a \<^verbatim>\<open>[]interface{}\<close> or a \<^verbatim>\<open>map[string]interface{}\<close> (the last two
  stand for their JSON text). The type parameter \<open>'f\<close> is float64.
\<close>

datatype 'f generic =
    GNil
  | GBool bool
  | GFloat64 'f
  | GString string
  | GSlice RawMessage
  | GMap RawMessage

text \<open>
  \<^verbatim>\<open>reflect.Value\<close>: the decoded scalars, an integer of a given integer type, and any
  other value (a pointer, a struct, a receiver) with its type and a text that identifies it.
\<close>

datatype 'f Value =
    BoolValue bool
  | Float64Value 'f
  | StringValue string
  | IntValue rtype int
  | OtherValue rtype RawMessage

fun Type :: "'f Value \<Rightarrow> rtype" where
  "Type (BoolValue b) = boolType"
| "Type (Float64Value f) = float64Type"
| "Type (StringValue s) = stringType"
| "Type (IntValue t n) = t"
| "Type (OtherValue t r) = t"

text \<open>\<^verbatim>\<open>reflect.NewValue(v)\<close> for a decoded \<^verbatim>\<open>v interface{}\<close>: \<^verbatim>\<open>NewValue(nil)\<close> is nil.\<close>

fun NewValue :: "'f generic \<Rightarrow> 'f Value option" where
  "NewValue GNil = None"
| "NewValue (GBool b) = Some (BoolValue b)"
| "NewValue (GFloat64 f) = Some (Float64Value f)"
| "NewValue (GString s) = Some (StringValue s)"
| "NewValue (GSlice r) = Some (OtherValue sliceType r)"
| "NewValue (GMap r) = Some (OtherValue mapType r)"

text \<open>\<^verbatim>\<open>jsonRequest\<close> and \<^verbatim>\<open>jsonResponse\<close>; a nil pointer or nil interface is \<open>None\<close>.\<close>

record jsonRequest =
  req_Id :: "RawMessage option"
  req_Method :: string
  req_Params :: "RawMessage option"

record 'f jsonResponse =
  resp_Id :: "RawMessage option"
  resp_Result :: "'f Value option"
  resp_Error :: "string option"

text \<open>
  \<^verbatim>\<open>reflect.Method\<close>: \<open>m_In\<close> and \<open>m_Out\<close> are \<^verbatim>\<open>Type.In(i)\<close> and \<^verbatim>\<open>Type.Out(i)\<close>
  (\<open>m_In\<close> starts with the receiver), \<open>m_PkgPath\<close> is \<^verbatim>\<open>Type.PkgPath()\<close>. \<open>m_Func\<close> is
  \<^verbatim>\<open>Func.Call(args)\<close> followed by \<^verbatim>\<open>Interface()\<close> on the two results: the first result
  (\<open>None\<close> is a nil interface) and the \<^verbatim>\<open>os.Error\<close> (\<open>None\<close> is nil, \<open>Some s\<close> an error
  whose \<^verbatim>\<open>String()\<close> is \<open>s\<close>). It is only called on registered methods, which have
  exactly two results, the second an \<^verbatim>\<open>os.Error\<close>. The method is a function of its
  arguments: a method that panics, does not return or changes the server is outside the model.
\<close>

record 'f Method =
  m_Name :: string
  m_PkgPath :: string
  m_In :: "rtype list"
  m_Out :: "rtype list"
  m_Func :: "'f Value list \<Rightarrow> 'f Value option \<times> string option"

text \<open>\<^verbatim>\<open>numCalls uint\<close>: 32 bits in the Go releases the package is written for.\<close>

record 'f methodType =
  mt_method :: "'f Method"
  mt_argTypes :: "rtype list"
  mt_returnType :: rtype
  mt_numCalls :: "32 word"

text \<open>The receiver's \<^verbatim>\<open>reflect.Type\<close>, with its methods in the order of \<^verbatim>\<open>Method(m)\<close>.\<close>

record 'f recvType =
  t_String :: string
  t_PkgPath :: string
  t_Methods :: "'f Method list"

text \<open>
  \<^verbatim>\<open>service\<close>. The map \<^verbatim>\<open>method\<close> is an association list with one entry for each key
  (\<open>AList.update\<close> stores, \<open>map_of\<close> looks up), so that \<^verbatim>\<open>len(s.method)\<close> is its length.
\<close>

record 'f service =
  s_name :: string
  s_rcvr :: "'f Value"
  s_typ :: "'f recvType"
  s_method :: "(string \<times> 'f methodType) list"

record 'f Server =
  serviceMap :: "string \<rightharpoonup> 'f service"

text \<open>
  The argument \<^verbatim>\<open>rcvr interface{}\<close> of \<^verbatim>\<open>register\<close>, as reflection shows it:
  \<^verbatim>\<open>reflect.Typeof(rcvr)\<close>, \<^verbatim>\<open>reflect.NewValue(rcvr)\<close> and
  \<^verbatim>\<open>reflect.Indirect(s.rcvr).Type().Name()\<close>.
\<close>

record 'f receiver =
  r_typ :: "'f recvType"
  r_value :: "'f Value"
  r_indirectName :: string

text \<open>
  The library functions the package calls. An error result is \<open>Inl\<close> of its
  \<^verbatim>\<open>String()\<close>.
  \<^item> \<open>Decode\<close>: \<^verbatim>\<open>json.NewDecoder(r.Body).Decode(req)\<close> on the request body;
  \<^item> \<open>Unmarshal_params\<close>: \<^verbatim>\<open>json.Unmarshal(raw, &params)\<close> for \<^verbatim>\<open>params []*json.RawMessage\<close>;
  \<^item> \<open>Unmarshal_ptr\<close>: \<^verbatim>\<open>json.Unmarshal(raw, argPointer.Interface())\<close> for a fresh pointer
    of the given pointer type to a zero value; the result is \<^verbatim>\<open>argPointer\<close> afterwards;
  \<^item> \<open>Unmarshal_iface\<close>: \<^verbatim>\<open>json.Unmarshal(raw, &v)\<close> for \<^verbatim>\<open>v interface{}\<close>;
  \<^item> \<open>float64_to_int\<close>: the conversion \<^verbatim>\<open>int(f)\<close>;
  \<^item> \<open>SetValue\<close>: the number that a zero value of the given integer type holds after
    \<^verbatim>\<open>arg.SetValue(newValue)\<close> for an \<^verbatim>\<open>int\<close> value: the number in the width of that type;
  \<^item> \<open>DecodeRuneInString\<close>, \<open>IsUpper\<close>: from \<^verbatim>\<open>utf8\<close> and \<^verbatim>\<open>unicode\<close>.
\<close>

record 'f golib =
  Decode :: "string \<Rightarrow> string + jsonRequest"
  Unmarshal_params :: "RawMessage \<Rightarrow> string + RawMessage option list"
  Unmarshal_ptr :: "rtype \<Rightarrow> RawMessage \<Rightarrow> string + 'f Value"
  Unmarshal_iface :: "RawMessage \<Rightarrow> string + 'f generic"
  float64_to_int :: "'f \<Rightarrow> int"
  SetValue :: "rtype \<Rightarrow> int \<Rightarrow> int"
  DecodeRuneInString :: "string \<Rightarrow> nat"
  IsUpper :: "nat \<Rightarrow> bool"

text \<open>A Go call either returns or panics.\<close>

datatype 'a go = Return 'a | Panic string

text \<open>
  What a dispatch does to the outside: the read of \<^verbatim>\<open>server.serviceMap\<close>, the call of the
  method, and the calls on the \<^verbatim>\<open>http.ResponseWriter\<close> (\<open>Encode\<close> is
  \<^verbatim>\<open>json.NewEncoder(w).Encode(resp)\<close>).
\<close>

datatype 'f action =
    Lookup string
  | Call string string "'f Value list"
  | SetHeader string string
  | Write string
  | Encode "'f jsonResponse"

text \<open>How \<^verbatim>\<open>register\<close> ends: \<^verbatim>\<open>log.Exit\<close> ends the process, otherwise it returns nil or an error.\<close>

datatype exit = Exit string | Returns "string option"

section \<open>Registration\<close>


definition isExported :: "'f golib \<Rightarrow> string \<Rightarrow> bool" where
  "isExported L name = IsUpper L (DecodeRuneInString L name)"

text \<open>The test on an argument or return type: a pointer to an unexported type of a package.\<close>

fun unexportedPtr :: "'f golib \<Rightarrow> rtype \<Rightarrow> bool" where
  "unexportedPtr L (PtrType e) = (PkgPath e \<noteq> [] \<and> \<not> isExported L (Name e))"
| "unexportedPtr L t = False"

text \<open>One round of \<^verbatim>\<open>MethodLoop\<close>: the method is skipped or entered into \<^verbatim>\<open>s.method\<close>.\<close>

definition install ::
  "'f golib \<Rightarrow> 'f Method \<Rightarrow> (string \<times> 'f methodType) list \<Rightarrow> (string \<times> 'f methodType) list" where
  "install L m tbl =
    (if m_PkgPath m \<noteq> [] \<or> \<not> isExported L (m_Name m) then tbl
     else if list_ex (unexportedPtr L) (drop 1 (m_In m)) then tbl
     else if length (m_Out m) \<noteq> 2 then tbl
     else if unexportedPtr L (m_Out m ! 0) then tbl
     else if m_Out m ! 1 \<noteq> typeOfOsError then tbl
     else AList.update (m_Name m)
       \<lparr>mt_method = m, mt_argTypes = drop 1 (m_In m), mt_returnType = m_Out m ! 0, mt_numCalls = 0\<rparr>
       tbl)"


text \<open>The name \<^verbatim>\<open>register\<close> resolves: \<^verbatim>\<open>name\<close> if \<^verbatim>\<open>useName\<close>, the type's name otherwise.\<close>

definition resolved :: "'f receiver \<Rightarrow> string \<Rightarrow> bool \<Rightarrow> string" where
  "resolved rcvr name useName = (if useName then name else r_indirectName rcvr)"

text \<open>
  \<^verbatim>\<open>register\<close>, under \<^verbatim>\<open>server.Lock()\<close>. The log lines are left out; \<^verbatim>\<open>log.Exit\<close>, which
  ends the process, is the result \<open>Exit\<close> with its message.
\<close>

definition register :: "'f golib \<Rightarrow> 'f Server \<Rightarrow> 'f receiver \<Rightarrow> string \<Rightarrow> bool \<Rightarrow> 'f Server \<times> exit" where
  "register L server rcvr name useName =
    (let sname = resolved rcvr name useName in
     if sname = [] then
       (server, Exit (''rpc: no service name for type'' @ t_String (r_typ rcvr)))
     else if t_PkgPath (r_typ rcvr) \<noteq> [] \<and> \<not> isExported L sname \<and> \<not> useName then
       (server, Returns (Some (''rpc Register: type '' @ sname @ '' is not exported'')))
     else if serviceMap server sname \<noteq> None then
       (server, Returns (Some (''rpc: service already defined: '' @ sname)))
     else
       let methods = fold (install L) (t_Methods (r_typ rcvr)) [] in
       if length methods = 0 then
         (server, Returns (Some (''rpc Register: type '' @ sname
            @ '' has no exported methods of suitable type'')))
       else
         (server\<lparr>serviceMap := (serviceMap server)(sname \<mapsto>
            \<lparr>s_name = sname, s_rcvr = r_value rcvr, s_typ = r_typ rcvr, s_method = methods\<rparr>)\<rparr>,
          Returns None))"

definition Register :: "'f golib \<Rightarrow> 'f Server \<Rightarrow> 'f receiver \<Rightarrow> 'f Server \<times> exit" where
  "Register L server rcvr = register L server rcvr [] False"


section \<open>Dispatch\<close>

text \<open>\<^verbatim>\<open>strings.Split(s, sep, -1)\<close> for a separator of one byte: all the pieces.\<close>

fun Split :: "string \<Rightarrow> char \<Rightarrow> string list" where
  "Split [] c = [[]]"
| "Split (x # xs) c =
    (if x = c then [] # Split xs c
     else (case Split xs c of [] \<Rightarrow> [[x]] | y # ys \<Rightarrow> (x # y) # ys))"

text \<open>\<^verbatim>\<open>strconv.Itoa\<close> on a number that is not negative.\<close>

fun Itoa :: "nat \<Rightarrow> string" where
  "Itoa n = (if n < 10 then [''0123456789'' ! n]
             else Itoa (n div 10) @ [''0123456789'' ! (n mod 10)])"

declare Itoa.simps [simp del]

text \<open>\<^verbatim>\<open>sendError\<close>: the header and the fixed body around the message.\<close>

definition sendError :: "string \<Rightarrow> 'f action list" where
  \<open>sendError s =
    [SetHeader ''Content-Type'' ''application/json; charset=utf-8'',
     Write (''{"jsonrpc": "2.0", "id":null, "error":"'' @ s @ ''"}'')]\<close>

definition mismatch :: "nat \<Rightarrow> string" where
  "mismatch i = ''Type mismatch parameter '' @ Itoa (i + 1) @ ''.''"

text \<open>
  The body of the loop of \<^verbatim>\<open>getParams\<close> at index \<open>i\<close>, for \<^verbatim>\<open>params[i]\<close> and
  \<^verbatim>\<open>argType\<close>: the decoded argument, an error, or a panic (\<^verbatim>\<open>*params[i]\<close> of a nil pointer,
  \<^verbatim>\<open>value.Type()\<close> of a nil \<^verbatim>\<open>reflect.Value\<close>).
\<close>

definition getParams_arg :: "'f golib \<Rightarrow> nat \<Rightarrow> RawMessage option \<Rightarrow> rtype \<Rightarrow> (string + 'f Value) go" where
  "getParams_arg L i p argType =
    (case p of
       None \<Rightarrow> Panic ''invalid memory address or nil pointer dereference''
     | Some raw \<Rightarrow>
        if isPtrType argType then
          (case Unmarshal_ptr L argType raw of
             Inl err \<Rightarrow> Return (Inl (mismatch i))
           | Inr argPointer \<Rightarrow> Return (Inr argPointer))
        else
          (case Unmarshal_iface L raw of
             Inl err \<Rightarrow> Return (Inl (mismatch i))
           | Inr v \<Rightarrow>
              (case NewValue v of
                 None \<Rightarrow> Panic ''invalid memory address or nil pointer dereference''
               | Some val \<Rightarrow>
                  if Type val = argType then Return (Inr val)
                  else if isFloatType (Type val) then
                    (if isIntType argType then
                       (case v of
                          GFloat64 f \<Rightarrow>
                            Return (Inr (IntValue argType (SetValue L argType (float64_to_int L f))))
                        | _ \<Rightarrow> Panic ''interface conversion'')
                     else Return (Inl (mismatch i)))
                  else Return (Inl (mismatch i)))))"

text \<open>The loop \<^verbatim>\<open>for i, argType := range argTypes\<close>, from index \<open>i\<close> on.\<close>

fun getParams_loop ::
  "'f golib \<Rightarrow> RawMessage option list \<Rightarrow> nat \<Rightarrow> rtype list \<Rightarrow> 'f Value list \<Rightarrow> (string + 'f Value list) go" where
  "getParams_loop L params i [] args = Return (Inr args)"
| "getParams_loop L params i (argType # rest) args =
    (if length params \<le> i then Panic ''index out of range''
     else
       (case getParams_arg L i (params ! i) argType of
          Panic p \<Rightarrow> Panic p
        | Return (Inl err) \<Rightarrow> Return (Inl err)
        | Return (Inr arg) \<Rightarrow> getParams_loop L params (Suc i) rest (args @ [arg])))"

definition getParams :: "'f golib \<Rightarrow> jsonRequest \<Rightarrow> rtype list \<Rightarrow> (string + 'f Value list) go" where
  "getParams L req argTypes =
    (case req_Params req of
       None \<Rightarrow> Panic ''invalid memory address or nil pointer dereference''
     | Some raw \<Rightarrow>
        (case Unmarshal_params L raw of
           Inl err \<Rightarrow> Return (Inl err)
         | Inr params \<Rightarrow>
            if length params \<noteq> length argTypes then
              Return (Inl ''Incorrect number of parameters.'')
            else getParams_loop L params 0 argTypes []))"

text \<open>The response \<^verbatim>\<open>ServeHTTP\<close> builds from the two results of the method.\<close>

definition response :: "jsonRequest \<Rightarrow> 'f Value option \<times> string option \<Rightarrow> 'f jsonResponse" where
  "response req returnValues =
    (let errmsg = (case snd returnValues of None \<Rightarrow> [] | Some e \<Rightarrow> e);
         resp = (if errmsg \<noteq> []
                 then \<lparr>resp_Id = None, resp_Result = None, resp_Error = Some errmsg\<rparr>
                 else \<lparr>resp_Id = None, resp_Result = fst returnValues, resp_Error = None\<rparr>)
     in resp\<lparr>resp_Id := req_Id req\<rparr>)"

text \<open>\<^verbatim>\<open>mtype.numCalls++\<close> on the method \<open>mname\<close> of the service \<open>sname\<close>.\<close>

definition count :: "'f Server \<Rightarrow> string \<Rightarrow> 'f service \<Rightarrow> string \<Rightarrow> 'f methodType \<Rightarrow> 'f Server" where
  "count server sname service mname mtype =
    server\<lparr>serviceMap := (serviceMap server)(sname \<mapsto>
      service\<lparr>s_method := AList.update mname
        (mtype\<lparr>mt_numCalls := mt_numCalls mtype + 1\<rparr>) (s_method service)\<rparr>)\<rparr>"

text \<open>
  \<^verbatim>\<open>ServeHTTP\<close> on a request body: the server afterwards, the actions in order, and
  whether the call returned or panicked. \<open>Split\<close> returns at least one piece (lemma
  \<open>Split_nonempty\<close>), so \<^verbatim>\<open>serviceMethod[0]\<close> is in range; \<^verbatim>\<open>serviceMethod[1]\<close>, which the
  code reads once the service is found, is not when the method string has no \<^verbatim>\<open>.\<close>.
\<close>

definition ServeHTTP :: "'f golib \<Rightarrow> 'f Server \<Rightarrow> string \<Rightarrow> 'f Server \<times> 'f action list \<times> unit go" where
  "ServeHTTP L server body =
    (case Decode L body of
       Inl err \<Rightarrow> (server, sendError ''Invalid JSON-RPC.'', Return ())
     | Inr req \<Rightarrow>
        let serviceMethod = Split (req_Method req) (CHR ''.'') in
        (case serviceMap server (serviceMethod ! 0) of
           None \<Rightarrow>
             (server, Lookup (serviceMethod ! 0) # sendError ''Service not found.'', Return ())
         | Some service \<Rightarrow>
            if length serviceMethod \<le> 1 then
              (server, [Lookup (serviceMethod ! 0)], Panic ''index out of range'')
            else
              (case map_of (s_method service) (serviceMethod ! 1) of
                 None \<Rightarrow>
                   (server, Lookup (serviceMethod ! 0) # sendError ''Method not found.'', Return ())
               | Some mtype \<Rightarrow>
                  (case getParams L req (mt_argTypes mtype) of
                     Panic p \<Rightarrow> (server, [Lookup (serviceMethod ! 0)], Panic p)
                   | Return (Inl err) \<Rightarrow>
                       (server, Lookup (serviceMethod ! 0) # sendError err, Return ())
                   | Return (Inr decoded) \<Rightarrow>
                      let args = s_rcvr service # decoded;
                          returnValues = m_Func (mt_method mtype) args
                      in (count server (serviceMethod ! 0) service (serviceMethod ! 1) mtype,
                          [Lookup (serviceMethod ! 0),
                           Call (serviceMethod ! 0) (serviceMethod ! 1) args,
                           SetHeader ''Content-Type'' ''application/json; charset=utf-8'',
                           Encode (response req returnValues)],
                          Return ())))))"

text \<open>The call counter of a method of a service, if both exist.\<close>

definition numCalls :: "'f Server \<Rightarrow> string \<Rightarrow> string \<Rightarrow> 32 word option" where
  "numCalls server sname mname =
    (case serviceMap server sname of
       None \<Rightarrow> None
     | Some service \<Rightarrow> map_option mt_numCalls (map_of (s_method service) mname))"

section \<open>A test server\<close>

text \<open>
  A registry and a library to run the definitions on, after the package's own test file:
  the type \<^verbatim>\<open>TestService\<close> with the method \<^verbatim>\<open>Add(a, b float64) (float64, os.Error)\<close>
  and \<^verbatim>\<open>Repeat(obj *A) (string, os.Error)\<close> of that file, and three more methods: \<open>Quiet\<close>
  returns an error whose description is empty, \<open>Fail\<close> returns the error \<^verbatim>\<open>boom\<close>,
  \<open>Nothing\<close> returns a nil \<^verbatim>\<open>interface{}\<close> and a nil error. \<open>Unsuitable\<close> is a type whose
  only method is not exported. float64 is \<open>real\<close> here.
\<close>

abbreviation jsonHeader :: "'f action" where
  "jsonHeader \<equiv> SetHeader ''Content-Type'' ''application/json; charset=utf-8''"

definition typeA :: rtype where
  "typeA = OtherType ''goajax'' ''A'' ''goajax.A''"

definition typeTestService :: rtype where
  "typeTestService = PtrType (IntType ''goajax'' ''TestService'')"

definition Add :: "real Method" where
  "Add = \<lparr>m_Name = ''Add'', m_PkgPath = [],
     m_In = [typeTestService, float64Type, float64Type],
     m_Out = [float64Type, typeOfOsError],
     m_Func = (\<lambda>args. case args of
        [r, Float64Value a, Float64Value b] \<Rightarrow> (Some (Float64Value (a + b)), None)
      | _ \<Rightarrow> (None, None))\<rparr>"

definition Repeat :: "real Method" where
  "Repeat = \<lparr>m_Name = ''Repeat'', m_PkgPath = [],
     m_In = [typeTestService, PtrType typeA],
     m_Out = [stringType, typeOfOsError],
     m_Func = (\<lambda>args. (Some (StringValue ''strstrstr''), None))\<rparr>"

definition Quiet :: "real Method" where
  "Quiet = \<lparr>m_Name = ''Quiet'', m_PkgPath = [],
     m_In = [typeTestService], m_Out = [stringType, typeOfOsError],
     m_Func = (\<lambda>args. (Some (StringValue ''done''), Some []))\<rparr>"

definition Fail :: "real Method" where
  "Fail = \<lparr>m_Name = ''Fail'', m_PkgPath = [],
     m_In = [typeTestService], m_Out = [stringType, typeOfOsError],
     m_Func = (\<lambda>args. (Some (StringValue ''partial''), Some ''boom''))\<rparr>"

definition Nothing :: "real Method" where
  "Nothing = \<lparr>m_Name = ''Nothing'', m_PkgPath = [],
     m_In = [typeTestService], m_Out = [OtherType [] [] ''interface { }'', typeOfOsError],
     m_Func = (\<lambda>args. (None, None))\<rparr>"

definition helper :: "real Method" where
  "helper = \<lparr>m_Name = ''helper'', m_PkgPath = ''goajax'',
     m_In = [typeTestService], m_Out = [],
     m_Func = (\<lambda>args. (None, None))\<rparr>"

definition TestService :: "real receiver" where
  "TestService = \<lparr>r_typ = \<lparr>t_String = ''*goajax.TestService'', t_PkgPath = [],
        t_Methods = [Add, Fail, Nothing, Quiet, Repeat]\<rparr>,
     r_value = OtherValue typeTestService ''0'',
     r_indirectName = ''TestService''\<rparr>"

definition Unsuitable :: "real receiver" where
  "Unsuitable = \<lparr>r_typ = \<lparr>t_String = ''*goajax.Unsuitable'', t_PkgPath = [],
        t_Methods = [helper]\<rparr>,
     r_value = OtherValue (PtrType (IntType ''goajax'' ''Unsuitable'')) ''0'',
     r_indirectName = ''Unsuitable''\<rparr>"

text \<open>
  The library on the request bodies and JSON texts of the examples: each body decodes to
  the request envelope it spells, any other body is a decoding error; numbers decode to
  float64, \<^verbatim>\<open>null\<close> to nil; \<^verbatim>\<open>int(f)\<close> rounds towards zero; an integer is stored in the
  width of its type, signed, for the predeclared types \<^verbatim>\<open>int8\<close>, \<^verbatim>\<open>int16\<close>, \<^verbatim>\<open>int64\<close> and
  in 32 bits otherwise; the upper-case letters are those of ASCII.
\<close>

definition testlib :: "real golib" where
  \<open>testlib = \<lparr>
     Decode = (\<lambda>body. case map_of
        [(''{"jsonrpc": "2.0", "method":"TestService.Add","params":[40, 2], "id":0}'',
            \<lparr>req_Id = Some ''0'', req_Method = ''TestService.Add'', req_Params = Some ''[40, 2]''\<rparr>),
         (''{"jsonrpc": "2.0", "method":"TestService.NonExistent","params":[40, 2], "id":7}'',
            \<lparr>req_Id = Some ''7'', req_Method = ''TestService.NonExistent'', req_Params = Some ''[40, 2]''\<rparr>),
         (''{"jsonrpc": "2.0", "method":"OtherService.Add","params":[40, 2], "id":7}'',
            \<lparr>req_Id = Some ''7'', req_Method = ''OtherService.Add'', req_Params = Some ''[40, 2]''\<rparr>),
         (''{"jsonrpc": "2.0", "method":"TestService.Add","params":[], "id":7}'',
            \<lparr>req_Id = Some ''7'', req_Method = ''TestService.Add'', req_Params = Some ''[]''\<rparr>),
         (''{"jsonrpc": "2.0", "method":"TestService","params":[40, 2], "id":0}'',
            \<lparr>req_Id = Some ''0'', req_Method = ''TestService'', req_Params = Some ''[40, 2]''\<rparr>),
         (''{"jsonrpc": "2.0", "method":"TestService.Add", "id":0}'',
            \<lparr>req_Id = Some ''0'', req_Method = ''TestService.Add'', req_Params = None\<rparr>),
         (''{"jsonrpc": "2.0", "method":"TestService.Add","params":[null, 2], "id":0}'',
            \<lparr>req_Id = Some ''0'', req_Method = ''TestService.Add'', req_Params = Some ''[null, 2]''\<rparr>),
         (''{"jsonrpc": "2.0", "method":"Add","params":[40, 2], "id":0}'',
            \<lparr>req_Id = Some ''0'', req_Method = ''Add'', req_Params = Some ''[40, 2]''\<rparr>),
         (''{"jsonrpc": "2.0", "method":"TestService.Add.More","params":[40, 2], "id":0}'',
            \<lparr>req_Id = Some ''0'', req_Method = ''TestService.Add.More'', req_Params = Some ''[40, 2]''\<rparr>),
         (''{"jsonrpc": "2.0", "method":"TestService.Quiet","params":[], "id":0}'',
            \<lparr>req_Id = Some ''0'', req_Method = ''TestService.Quiet'', req_Params = Some ''[]''\<rparr>),
         (''{"jsonrpc": "2.0", "method":"TestService.Nothing","params":[], "id":0}'',
            \<lparr>req_Id = Some ''0'', req_Method = ''TestService.Nothing'', req_Params = Some ''[]''\<rparr>),
         (''{"jsonrpc": "2.0", "method":"TestService.Fail","params":[], "id":0}'',
            \<lparr>req_Id = Some ''0'', req_Method = ''TestService.Fail'', req_Params = Some ''[]''\<rparr>),
         (''{"jsonrpc": "2.0", "method":"TestService.Repeat","params":["str"], "id":7}'',
            \<lparr>req_Id = Some ''7'', req_Method = ''TestService.Repeat'', req_Params = Some ''["str"]''\<rparr>)]
        body of None \<Rightarrow> Inl ''unexpected end of JSON input'' | Some req \<Rightarrow> Inr req),
     Unmarshal_params = (\<lambda>raw. case map_of
        [(''[40, 2]'', [Some ''40'', Some ''2'']),
         (''[null, 2]'', [Some ''null'', Some ''2'']),
         (''["str"]'', [Some ''"str"'']),
         (''[]'', [])] raw of None \<Rightarrow> Inl ''json: cannot unmarshal'' | Some ps \<Rightarrow> Inr ps),
     Unmarshal_ptr = (\<lambda>t raw.
        if t = PtrType typeA \<and> raw = ''{"x": "str", "y": 3}'' then Inr (OtherValue t raw)
        else Inl ''json: cannot unmarshal''),
     Unmarshal_iface = (\<lambda>raw. case map_of
        [(''40'', GFloat64 40), (''2'', GFloat64 2), (''300'', GFloat64 300), (''null'', GNil),
         (''"str"'', GString ''str'')] raw of
          None \<Rightarrow> Inl ''json: cannot unmarshal'' | Some v \<Rightarrow> Inr v),
     float64_to_int = (\<lambda>f. if 0 \<le> f then \<lfloor>f\<rfloor> else \<lceil>f\<rceil>),
     SetValue = (\<lambda>t n.
        if Name t = ''int8'' then sint (word_of_int n :: 8 word)
        else if Name t = ''int16'' then sint (word_of_int n :: 16 word)
        else if Name t = ''int64'' then sint (word_of_int n :: 64 word)
        else sint (word_of_int n :: 32 word)),
     DecodeRuneInString = (\<lambda>s. case s of [] \<Rightarrow> 65533 | c # cs \<Rightarrow> of_char c),
     IsUpper = (\<lambda>r. 65 \<le> r \<and> r \<le> 90)\<rparr>\<close>

text \<open>
  The server after \<^verbatim>\<open>s := NewServer(); s.Register(new(TestService))\<close> (lemma
  \<open>Register_TestService\<close> below).
\<close>

definition testServer :: "real Server" where
  "testServer = \<lparr>serviceMap = Map.empty(''TestService'' \<mapsto>
     \<lparr>s_name = ''TestService'', s_rcvr = OtherValue typeTestService ''0'',
      s_typ = r_typ TestService,
      s_method =
        [(''Add'', \<lparr>mt_method = Add, mt_argTypes = [float64Type, float64Type],
            mt_returnType = float64Type, mt_numCalls = 0\<rparr>),
         (''Fail'', \<lparr>mt_method = Fail, mt_argTypes = [],
            mt_returnType = stringType, mt_numCalls = 0\<rparr>),
         (''Nothing'', \<lparr>mt_method = Nothing, mt_argTypes = [],
            mt_returnType = OtherType [] [] ''interface { }'', mt_numCalls = 0\<rparr>),
         (''Quiet'', \<lparr>mt_method = Quiet, mt_argTypes = [],
            mt_returnType = stringType, mt_numCalls = 0\<rparr>),
         (''Repeat'', \<lparr>mt_method = Repeat, mt_argTypes = [PtrType typeA],
            mt_returnType = stringType, mt_numCalls = 0\<rparr>)]\<rparr>)\<rparr>"

section \<open>Lemmas\<close>

subsection \<open>Splitting the method string\<close>

lemma Split_nonempty: "Split s c \<noteq> []"
  by (induction s) (auto split: list.splits)

lemma Split_first: "Split s c ! 0 = takeWhile (\<lambda>x. x \<noteq> c) s"
  by (induction s) (auto simp: Split_nonempty split: list.splits)

lemma Split_length: "length (Split s c) = Suc (length (filter (\<lambda>x. x = c) s))"
  by (induction s) (auto split: list.splits)

lemma Split_single: "length (Split s c) \<le> 1 \<longleftrightarrow> c \<notin> set s"
  by (auto simp: Split_length filter_empty_conv)

lemma Split_second:
  "c \<in> set s \<Longrightarrow> Split s c ! Suc 0 = takeWhile (\<lambda>x. x \<noteq> c) (tl (dropWhile (\<lambda>x. x \<noteq> c) s))"
proof (induction s)
  case Nil
  then show ?case by simp
next
  case (Cons x xs)
  show ?case
  proof (cases "x = c")
    case True
    then show ?thesis by (simp add: Split_first)
  next
    case False
    with Cons.prems have "c \<in> set xs" by simp
    with Cons.IH False show ?thesis
      by (cases "Split xs c") (auto simp: Split_nonempty)
  qed
qed

subsection \<open>Registration\<close>





subsection \<open>Parameter decoding\<close>

lemma getParams_arg_ptr:
  "isPtrType argType \<Longrightarrow>
   getParams_arg L i (Some raw) argType =
     (case Unmarshal_ptr L argType raw of
        Inl err \<Rightarrow> Return (Inl (mismatch i))
      | Inr argPointer \<Rightarrow> Return (Inr argPointer))"
  by (simp add: getParams_arg_def)

lemma getParams_arg_exact:
  "\<not> isPtrType argType \<Longrightarrow> Unmarshal_iface L raw = Inr v \<Longrightarrow> NewValue v = Some val \<Longrightarrow>
   Type val = argType \<Longrightarrow>
   getParams_arg L i (Some raw) argType = Return (Inr val)"
  by (simp add: getParams_arg_def)

lemma getParams_arg_float_to_int:
  "isIntType argType \<Longrightarrow> Unmarshal_iface L raw = Inr (GFloat64 f) \<Longrightarrow>
   getParams_arg L i (Some raw) argType
     = Return (Inr (IntValue argType (SetValue L argType (float64_to_int L f))))"
  by (cases argType) (simp_all add: getParams_arg_def float64Type_def)

lemma getParams_arg_other:
  "\<not> isPtrType argType \<Longrightarrow> Unmarshal_iface L raw = Inr v \<Longrightarrow> NewValue v = Some val \<Longrightarrow>
   Type val \<noteq> argType \<Longrightarrow> \<not> (isFloatType (Type val) \<and> isIntType argType) \<Longrightarrow>
   getParams_arg L i (Some raw) argType = Return (Inl (mismatch i))"
  by (auto simp: getParams_arg_def)

lemma getParams_arg_undecoded:
  "\<not> isPtrType argType \<Longrightarrow> Unmarshal_iface L raw = Inl err \<Longrightarrow>
   getParams_arg L i (Some raw) argType = Return (Inl (mismatch i))"
  by (simp add: getParams_arg_def)

lemma getParams_arg_nil:
  "\<not> isPtrType argType \<Longrightarrow> Unmarshal_iface L raw = Inr GNil \<Longrightarrow>
   getParams_arg L i (Some raw) argType
     = Panic ''invalid memory address or nil pointer dereference''"
  by (simp add: getParams_arg_def)

lemma getParams_arg_error:
  "getParams_arg L i p t = Return (Inl e) \<Longrightarrow> e = mismatch i"
  by (auto simp: getParams_arg_def split: option.splits sum.splits if_splits generic.splits)

lemma getParams_loop_error:
  "getParams_loop L ps i ts args = Return (Inl e) \<Longrightarrow> \<exists>j. e = mismatch j"
proof (induction ts arbitrary: i args)
  case Nil
  then show ?case by simp
next
  case (Cons t ts)
  then show ?case
    by (auto split: if_splits go.splits sum.splits dest: getParams_arg_error)
qed

lemma mismatch_not_arity: "mismatch j \<noteq> ''Incorrect number of parameters.''"
  by (simp add: mismatch_def)

lemma getParams_loop_not_arity:
  "getParams_loop L ps i ts args \<noteq> Return (Inl ''Incorrect number of parameters.'')"
proof
  assume "getParams_loop L ps i ts args = Return (Inl ''Incorrect number of parameters.'')"
  then obtain j where "''Incorrect number of parameters.'' = mismatch j"
    by (blast dest: getParams_loop_error)
  then show False
    using mismatch_not_arity [of j] by simp
qed

lemma getParams_arity:
  assumes "req_Params req = Some raw" and "Unmarshal_params L raw = Inr params"
  shows "getParams L req argTypes = Return (Inl ''Incorrect number of parameters.'')
     \<longleftrightarrow> length params \<noteq> length argTypes"
  using assms by (simp add: getParams_def getParams_loop_not_arity)

subsection \<open>The paths of a dispatch\<close>

lemma ServeHTTP_undecoded:
  "Decode L body = Inl err \<Longrightarrow>
   ServeHTTP L server body = (server, sendError ''Invalid JSON-RPC.'', Return ())"
  by (simp add: ServeHTTP_def)

lemma ServeHTTP_no_service:
  "Decode L body = Inr req \<Longrightarrow> sm = Split (req_Method req) (CHR ''.'') \<Longrightarrow>
   serviceMap server (sm ! 0) = None \<Longrightarrow>
   ServeHTTP L server body = (server, Lookup (sm ! 0) # sendError ''Service not found.'', Return ())"
  by (simp add: ServeHTTP_def Let_def)

lemma ServeHTTP_no_index:
  "Decode L body = Inr req \<Longrightarrow> sm = Split (req_Method req) (CHR ''.'') \<Longrightarrow>
   serviceMap server (sm ! 0) = Some service \<Longrightarrow> length sm \<le> 1 \<Longrightarrow>
   ServeHTTP L server body = (server, [Lookup (sm ! 0)], Panic ''index out of range'')"
  by (simp add: ServeHTTP_def Let_def)

lemma ServeHTTP_no_method:
  "Decode L body = Inr req \<Longrightarrow> sm = Split (req_Method req) (CHR ''.'') \<Longrightarrow>
   serviceMap server (sm ! 0) = Some service \<Longrightarrow> 1 < length sm \<Longrightarrow>
   map_of (s_method service) (sm ! 1) = None \<Longrightarrow>
   ServeHTTP L server body = (server, Lookup (sm ! 0) # sendError ''Method not found.'', Return ())"
  by (simp add: ServeHTTP_def Let_def)

lemma ServeHTTP_params_panic:
  "Decode L body = Inr req \<Longrightarrow> sm = Split (req_Method req) (CHR ''.'') \<Longrightarrow>
   serviceMap server (sm ! 0) = Some service \<Longrightarrow> 1 < length sm \<Longrightarrow>
   map_of (s_method service) (sm ! 1) = Some mtype \<Longrightarrow>
   getParams L req (mt_argTypes mtype) = Panic p \<Longrightarrow>
   ServeHTTP L server body = (server, [Lookup (sm ! 0)], Panic p)"
  by (simp add: ServeHTTP_def Let_def)

lemma ServeHTTP_params_error:
  "Decode L body = Inr req \<Longrightarrow> sm = Split (req_Method req) (CHR ''.'') \<Longrightarrow>
   serviceMap server (sm ! 0) = Some service \<Longrightarrow> 1 < length sm \<Longrightarrow>
   map_of (s_method service) (sm ! 1) = Some mtype \<Longrightarrow>
   getParams L req (mt_argTypes mtype) = Return (Inl err) \<Longrightarrow>
   ServeHTTP L server body = (server, Lookup (sm ! 0) # sendError err, Return ())"
  by (simp add: ServeHTTP_def Let_def)

lemma ServeHTTP_invoked:
  "Decode L body = Inr req \<Longrightarrow> sm = Split (req_Method req) (CHR ''.'') \<Longrightarrow>
   serviceMap server (sm ! 0) = Some service \<Longrightarrow> 1 < length sm \<Longrightarrow>
   map_of (s_method service) (sm ! 1) = Some mtype \<Longrightarrow>
   getParams L req (mt_argTypes mtype) = Return (Inr decoded) \<Longrightarrow>
   ServeHTTP L server body =
     (count server (sm ! 0) service (sm ! 1) mtype,
      [Lookup (sm ! 0), Call (sm ! 0) (sm ! 1) (s_rcvr service # decoded),
       SetHeader ''Content-Type'' ''application/json; charset=utf-8'',
       Encode (response req (m_Func (mt_method mtype) (s_rcvr service # decoded)))],
      Return ())"
  by (simp add: ServeHTTP_def Let_def)

lemma response_error:
  "err \<noteq> [] \<Longrightarrow> response req (result, Some err)
     = \<lparr>resp_Id = req_Id req, resp_Result = None, resp_Error = Some err\<rparr>"
  by (simp add: response_def)

lemma response_result:
  "err = None \<or> err = Some [] \<Longrightarrow> response req (result, err)
     = \<lparr>resp_Id = req_Id req, resp_Result = result, resp_Error = None\<rparr>"
  by (auto simp: response_def)

lemma numCalls_count:
  assumes "serviceMap server sname = Some service"
    and "map_of (s_method service) mname = Some mtype"
  shows "numCalls (count server sname service mname mtype) s m =
    (if s = sname \<and> m = mname then Some (mt_numCalls mtype + 1) else numCalls server s m)"
  using assms by (auto simp: numCalls_def count_def update_conv')

subsection \<open>The test server\<close>

lemmas test_defs =
  testlib_def testServer_def TestService_def Unsuitable_def Add_def Fail_def Nothing_def
  Quiet_def Repeat_def helper_def typeA_def typeTestService_def float64Type_def stringType_def
  boolType_def typeOfOsError_def

lemmas eval_defs =
  ServeHTTP_def getParams_def getParams_arg_def sendError_def response_def count_def mismatch_def
  Let_def Itoa.simps


text \<open>The float 300 for an \<^verbatim>\<open>int8\<close> argument is accepted and stored as 44.\<close>

lemma getParams_arg_int8:
  "getParams_arg testlib 0 (Some ''300'') (IntType [] ''int8'')
     = Return (Inr (IntValue (IntType [] ''int8'') 44))"
  by (simp add: getParams_arg_def testlib_def float64Type_def)

section \<open>The claims\<close>

subsection \<open>C1\<close>

text \<open>
  C1 says that a request that fails at the service lookup gets an error envelope whose id
  is the id of the request. The code answers through \<^verbatim>\<open>sendError\<close>, which writes a fixed
  body: the request with id \<^verbatim>\<open>7\<close> for the unknown service \<^verbatim>\<open>OtherService\<close> is answered by
  a body whose id is \<^verbatim>\<open>null\<close>, and the digit 7 does not occur in it.
\<close>

theorem C1_counterexample:
  \<open>Decode testlib ''{"jsonrpc": "2.0", "method":"OtherService.Add","params":[40, 2], "id":7}''
     = Inr \<lparr>req_Id = Some ''7'', req_Method = ''OtherService.Add'', req_Params = Some ''[40, 2]''\<rparr>
   \<and> ServeHTTP testlib testServer ''{"jsonrpc": "2.0", "method":"OtherService.Add","params":[40, 2], "id":7}''
     = (testServer,
        [Lookup ''OtherService'', jsonHeader,
         Write ''{"jsonrpc": "2.0", "id":null, "error":"Service not found."}''],
        Return ())
   \<and> CHR ''7'' \<notin> set ''{"jsonrpc": "2.0", "id":null, "error":"Service not found."}''\<close>
  by (simp add: eval_defs test_defs)

text \<open>
  C1, as the code has it: a request that decodes and then fails at the service lookup, at
  the method lookup or in \<^verbatim>\<open>getParams\<close> is answered by the fixed body of \<^verbatim>\<open>sendError\<close>
  with the message of the failure. Its id is the literal \<^verbatim>\<open>null\<close> whatever the id of the
  request is; the registry is unchanged and no method is called.
\<close>

theorem C1_error_envelope_null_id:
  assumes "Decode L body = Inr req" and "sm = Split (req_Method req) (CHR ''.'')"
  shows \<open>(serviceMap server (sm ! 0) = None \<longrightarrow>
            ServeHTTP L server body =
              (server,
               [Lookup (sm ! 0), SetHeader ''Content-Type'' ''application/json; charset=utf-8'',
                Write ''{"jsonrpc": "2.0", "id":null, "error":"Service not found."}''],
               Return ()))
     \<and> (\<forall>service. serviceMap server (sm ! 0) = Some service \<and> 1 < length sm
            \<and> map_of (s_method service) (sm ! 1) = None \<longrightarrow>
            ServeHTTP L server body =
              (server,
               [Lookup (sm ! 0), SetHeader ''Content-Type'' ''application/json; charset=utf-8'',
                Write ''{"jsonrpc": "2.0", "id":null, "error":"Method not found."}''],
               Return ()))
     \<and> (\<forall>service mtype err. serviceMap server (sm ! 0) = Some service \<and> 1 < length sm
            \<and> map_of (s_method service) (sm ! 1) = Some mtype
            \<and> getParams L req (mt_argTypes mtype) = Return (Inl err) \<longrightarrow>
            ServeHTTP L server body =
              (server,
               [Lookup (sm ! 0), SetHeader ''Content-Type'' ''application/json; charset=utf-8'',
                Write (''{"jsonrpc": "2.0", "id":null, "error":"'' @ err @ ''"}'')],
               Return ()))\<close>
  using assms
  by (simp add: ServeHTTP_no_service ServeHTTP_no_method ServeHTTP_params_error sendError_def)

text \<open>
  C1 on the test server: an unknown service, an unknown method, and a string where
  \<^verbatim>\<open>Repeat\<close> expects an object, each sent with id \<^verbatim>\<open>7\<close>.
\<close>

theorem C1_error_envelope_null_id_witness:
  \<open>ServeHTTP testlib testServer ''{"jsonrpc": "2.0", "method":"OtherService.Add","params":[40, 2], "id":7}''
     = (testServer,
        [Lookup ''OtherService'', jsonHeader,
         Write ''{"jsonrpc": "2.0", "id":null, "error":"Service not found."}''],
        Return ())
   \<and> ServeHTTP testlib testServer ''{"jsonrpc": "2.0", "method":"TestService.NonExistent","params":[40, 2], "id":7}''
     = (testServer,
        [Lookup ''TestService'', jsonHeader,
         Write ''{"jsonrpc": "2.0", "id":null, "error":"Method not found."}''],
        Return ())
   \<and> ServeHTTP testlib testServer ''{"jsonrpc": "2.0", "method":"TestService.Repeat","params":["str"], "id":7}''
     = (testServer,
        [Lookup ''TestService'', jsonHeader,
         Write ''{"jsonrpc": "2.0", "id":null, "error":"Type mismatch parameter 1."}''],
        Return ())\<close>
proof -
  have d1: \<open>Decode testlib ''{"jsonrpc": "2.0", "method":"OtherService.Add","params":[40, 2], "id":7}''
     = Inr \<lparr>req_Id = Some ''7'', req_Method = ''OtherService.Add'', req_Params = Some ''[40, 2]''\<rparr>\<close>
    and d2: \<open>Decode testlib ''{"jsonrpc": "2.0", "method":"TestService.NonExistent","params":[40, 2], "id":7}''
     = Inr \<lparr>req_Id = Some ''7'', req_Method = ''TestService.NonExistent'', req_Params = Some ''[40, 2]''\<rparr>\<close>
    and d3: \<open>Decode testlib ''{"jsonrpc": "2.0", "method":"TestService.Repeat","params":["str"], "id":7}''
     = Inr \<lparr>req_Id = Some ''7'', req_Method = ''TestService.Repeat'', req_Params = Some ''["str"]''\<rparr>\<close>
    by (simp_all add: testlib_def)
  have g: \<open>getParams testlib
      \<lparr>req_Id = Some ''7'', req_Method = ''TestService.Repeat'', req_Params = Some ''["str"]''\<rparr>
      [PtrType typeA] = Return (Inl ''Type mismatch parameter 1.'')\<close>
    by (simp add: eval_defs test_defs)
  from C1_error_envelope_null_id [OF d1 refl, of testServer]
    C1_error_envelope_null_id [OF d2 refl, of testServer]
    C1_error_envelope_null_id [OF d3 refl, of testServer] g
  show ?thesis
    by (simp add: testServer_def)
qed

subsection \<open>C2\<close>

text \<open>
  C2 says that \<^verbatim>\<open>ServeHTTP\<close> returns for every request body and registry. On the test
  server it panics on the method string \<^verbatim>\<open>TestService\<close>, which has no \<^verbatim>\<open>.\<close> and names a
  registered service (\<^verbatim>\<open>serviceMethod[1]\<close> is out of range), and on a request for
  \<^verbatim>\<open>TestService.Add\<close> without \<^verbatim>\<open>params\<close> (\<^verbatim>\<open>*req.Params\<close> of a nil pointer). Nothing is
  written in either case.
\<close>

theorem C2_panic_escapes:
  \<open>ServeHTTP testlib testServer ''{"jsonrpc": "2.0", "method":"TestService","params":[40, 2], "id":0}''
     = (testServer, [Lookup ''TestService''], Panic ''index out of range'')
   \<and> ServeHTTP testlib testServer ''{"jsonrpc": "2.0", "method":"TestService.Add", "id":0}''
     = (testServer, [Lookup ''TestService''],
        Panic ''invalid memory address or nil pointer dereference'')\<close>
  by (simp add: eval_defs test_defs)

subsection \<open>C3\<close>

text \<open>
  C3: if the request body does not decode, \<^verbatim>\<open>ServeHTTP\<close> sets the header, writes the body
  with the null id and the message \<^verbatim>\<open>Invalid JSON-RPC.\<close> and returns. These are its only
  actions: the registry is not read, no method is called, and the server, with every call
  counter, is as before.
\<close>

theorem C3_invalid_request:
  assumes "Decode L body = Inl err"
  shows \<open>ServeHTTP L server body =
    (server,
     [SetHeader ''Content-Type'' ''application/json; charset=utf-8'',
      Write ''{"jsonrpc": "2.0", "id":null, "error":"Invalid JSON-RPC."}''],
     Return ())\<close>
  using assms by (simp add: ServeHTTP_undecoded sendError_def)

text \<open>
  C3 on the test server, for the body of the package's test that lacks the closing brace.
\<close>

theorem C3_invalid_request_witness:
  \<open>Decode testlib ''{"jsonrpc": "2.0", "method":"TestService.Add","params":[40, 2], "id":0''
     = Inl ''unexpected end of JSON input''
   \<and> ServeHTTP testlib testServer ''{"jsonrpc": "2.0", "method":"TestService.Add","params":[40, 2], "id":0''
     = (testServer,
        [SetHeader ''Content-Type'' ''application/json; charset=utf-8'',
         Write ''{"jsonrpc": "2.0", "id":null, "error":"Invalid JSON-RPC."}''],
        Return ())\<close>
proof -
  have d: \<open>Decode testlib ''{"jsonrpc": "2.0", "method":"TestService.Add","params":[40, 2], "id":0''
     = Inl ''unexpected end of JSON input''\<close>
    by (simp add: testlib_def)
  show ?thesis
    using d C3_invalid_request [OF d, of testServer] by simp
qed

subsection \<open>C4\<close>

text \<open>
  C4 says that the envelope carries the error's description and no result whenever the
  method reports an error, and that result and error are never both absent. \<open>Quiet\<close>
  reports an error whose description is empty: the envelope carries the result and no
  error. \<open>Nothing\<close> returns nil and no error: the envelope carries neither.
\<close>

theorem C4_counterexample:
  \<open>m_Func Quiet [OtherValue typeTestService ''0''] = (Some (StringValue ''done''), Some [])
   \<and> snd (ServeHTTP testlib testServer ''{"jsonrpc": "2.0", "method":"TestService.Quiet","params":[], "id":0}'')
     = ([Lookup ''TestService'', Call ''TestService'' ''Quiet'' [OtherValue typeTestService ''0''],
         jsonHeader,
         Encode \<lparr>resp_Id = Some ''0'', resp_Result = Some (StringValue ''done''), resp_Error = None\<rparr>],
        Return ())
   \<and> m_Func Nothing [OtherValue typeTestService ''0''] = (None, None)
   \<and> snd (ServeHTTP testlib testServer ''{"jsonrpc": "2.0", "method":"TestService.Nothing","params":[], "id":0}'')
     = ([Lookup ''TestService'', Call ''TestService'' ''Nothing'' [OtherValue typeTestService ''0''],
         jsonHeader,
         Encode \<lparr>resp_Id = Some ''0'', resp_Result = None, resp_Error = None\<rparr>],
        Return ())\<close>
  by (simp add: eval_defs test_defs)

text \<open>
  C4, as the code has it. A dispatch whose request is routed and whose parameters decode
  calls the method and then writes exactly one envelope, with the id of the request: if
  the method's error is not nil and its description is not empty, the envelope has this
  description as error and no result; otherwise it has the method's first result as
  result and no error. And every dispatch that returns has done one of two things: it has
  written the fixed error body of \<^verbatim>\<open>sendError\<close> (an error, no result) without any call, or
  it is such a routed dispatch and its actions are the lookup, the call and that envelope.
  So result and error are never both present, and both are absent only when the first
  result is nil.
\<close>

theorem C4_result_or_error:
  fixes L :: "'f golib" and server :: "'f Server"
  shows \<open>(\<forall>req service mtype decoded result err.
        Decode L body = Inr req
        \<and> serviceMap server (Split (req_Method req) (CHR ''.'') ! 0) = Some service
        \<and> 1 < length (Split (req_Method req) (CHR ''.''))
        \<and> map_of (s_method service) (Split (req_Method req) (CHR ''.'') ! 1) = Some mtype
        \<and> getParams L req (mt_argTypes mtype) = Return (Inr decoded)
        \<and> m_Func (mt_method mtype) (s_rcvr service # decoded) = (result, err) \<longrightarrow>
        snd (ServeHTTP L server body) =
          ([Lookup (Split (req_Method req) (CHR ''.'') ! 0),
            Call (Split (req_Method req) (CHR ''.'') ! 0) (Split (req_Method req) (CHR ''.'') ! 1)
              (s_rcvr service # decoded),
            SetHeader ''Content-Type'' ''application/json; charset=utf-8'',
            Encode \<lparr>resp_Id = req_Id req,
              resp_Result = (if err \<noteq> None \<and> err \<noteq> Some [] then None else result),
              resp_Error = (if err \<noteq> None \<and> err \<noteq> Some [] then err else None)\<rparr>],
           Return ()))
     \<and> (\<forall>acts. snd (ServeHTTP L server body) = (acts, Return ()) \<longrightarrow>
          (\<exists>msg.
              acts = [SetHeader ''Content-Type'' ''application/json; charset=utf-8'',
                      Write (''{"jsonrpc": "2.0", "id":null, "error":"'' @ msg @ ''"}'')]
              \<or> (\<exists>sname.
                    acts = [Lookup sname,
                            SetHeader ''Content-Type'' ''application/json; charset=utf-8'',
                            Write (''{"jsonrpc": "2.0", "id":null, "error":"'' @ msg @ ''"}'')]))
          \<or> (\<exists>req service mtype decoded.
                Decode L body = Inr req
                \<and> serviceMap server (Split (req_Method req) (CHR ''.'') ! 0) = Some service
                \<and> 1 < length (Split (req_Method req) (CHR ''.''))
                \<and> map_of (s_method service) (Split (req_Method req) (CHR ''.'') ! 1) = Some mtype
                \<and> getParams L req (mt_argTypes mtype) = Return (Inr decoded)
                \<and> (case m_Func (mt_method mtype) (s_rcvr service # decoded) of
                     (result, err) \<Rightarrow>
                       acts =
                         [Lookup (Split (req_Method req) (CHR ''.'') ! 0),
                          Call (Split (req_Method req) (CHR ''.'') ! 0)
                            (Split (req_Method req) (CHR ''.'') ! 1) (s_rcvr service # decoded),
                          SetHeader ''Content-Type'' ''application/json; charset=utf-8'',
                          Encode \<lparr>resp_Id = req_Id req,
                            resp_Result = (if err \<noteq> None \<and> err \<noteq> Some [] then None else result),
                            resp_Error = (if err \<noteq> None \<and> err \<noteq> Some [] then err else None)\<rparr>])))\<close>
proof (intro conjI allI impI)
  fix req service mtype decoded result err
  assume p: "Decode L body = Inr req
        \<and> serviceMap server (Split (req_Method req) (CHR ''.'') ! 0) = Some service
        \<and> 1 < length (Split (req_Method req) (CHR ''.''))
        \<and> map_of (s_method service) (Split (req_Method req) (CHR ''.'') ! 1) = Some mtype
        \<and> getParams L req (mt_argTypes mtype) = Return (Inr decoded)
        \<and> m_Func (mt_method mtype) (s_rcvr service # decoded) = (result, err)"
  have r: "response req (result, err) =
      \<lparr>resp_Id = req_Id req,
       resp_Result = (if err \<noteq> None \<and> err \<noteq> Some [] then None else result),
       resp_Error = (if err \<noteq> None \<and> err \<noteq> Some [] then err else None)\<rparr>"
    by (cases err) (auto simp: response_def)
  from p r show "snd (ServeHTTP L server body) =
          ([Lookup (Split (req_Method req) (CHR ''.'') ! 0),
            Call (Split (req_Method req) (CHR ''.'') ! 0) (Split (req_Method req) (CHR ''.'') ! 1)
              (s_rcvr service # decoded),
            SetHeader ''Content-Type'' ''application/json; charset=utf-8'',
            Encode \<lparr>resp_Id = req_Id req,
              resp_Result = (if err \<noteq> None \<and> err \<noteq> Some [] then None else result),
              resp_Error = (if err \<noteq> None \<and> err \<noteq> Some [] then err else None)\<rparr>],
           Return ())"
    by (simp add: ServeHTTP_invoked)
next
  fix acts
  assume a: "snd (ServeHTTP L server body) = (acts, Return ())"
  let ?goal = \<open>(\<exists>msg.
              acts = [SetHeader ''Content-Type'' ''application/json; charset=utf-8'',
                      Write (''{"jsonrpc": "2.0", "id":null, "error":"'' @ msg @ ''"}'')]
              \<or> (\<exists>sname.
                    acts = [Lookup sname,
                            SetHeader ''Content-Type'' ''application/json; charset=utf-8'',
                            Write (''{"jsonrpc": "2.0", "id":null, "error":"'' @ msg @ ''"}'')]))
          \<or> (\<exists>req service mtype decoded.
                Decode L body = Inr req
                \<and> serviceMap server (Split (req_Method req) (CHR ''.'') ! 0) = Some service
                \<and> 1 < length (Split (req_Method req) (CHR ''.''))
                \<and> map_of (s_method service) (Split (req_Method req) (CHR ''.'') ! 1) = Some mtype
                \<and> getParams L req (mt_argTypes mtype) = Return (Inr decoded)
                \<and> (case m_Func (mt_method mtype) (s_rcvr service # decoded) of
                     (result, err) \<Rightarrow>
                       acts =
                         [Lookup (Split (req_Method req) (CHR ''.'') ! 0),
                          Call (Split (req_Method req) (CHR ''.'') ! 0)
                            (Split (req_Method req) (CHR ''.'') ! 1) (s_rcvr service # decoded),
                          SetHeader ''Content-Type'' ''application/json; charset=utf-8'',
                          Encode \<lparr>resp_Id = req_Id req,
                            resp_Result = (if err \<noteq> None \<and> err \<noteq> Some [] then None else result),
                            resp_Error = (if err \<noteq> None \<and> err \<noteq> Some [] then err else None)\<rparr>]))\<close>
  show ?goal
  proof (cases "Decode L body")
    case (Inl e)
    with a show ?thesis
      by (auto simp: ServeHTTP_undecoded sendError_def)
  next
    case (Inr req)
    note dec = this
    define sm where "sm = Split (req_Method req) (CHR ''.'')"
    show ?thesis
    proof (cases "serviceMap server (sm ! 0)")
      case None
      with a dec sm_def show ?thesis
        by (auto simp: ServeHTTP_no_service sendError_def)
    next
      case (Some service)
      note svc = this
      have len: "1 < length sm"
        using a dec svc sm_def by (auto simp: ServeHTTP_def Let_def split: if_splits)
      show ?thesis
      proof (cases "map_of (s_method service) (sm ! 1)")
        case None
        with a dec svc len sm_def show ?thesis
          by (auto simp: ServeHTTP_no_method sendError_def)
      next
        case (Some mtype)
        note mt = this
        show ?thesis
        proof (cases "getParams L req (mt_argTypes mtype)")
          case (Panic p)
          with a dec svc len mt sm_def show ?thesis
            by (simp add: ServeHTTP_params_panic)
        next
          case (Return r)
          show ?thesis
          proof (cases r)
            case (Inl e)
            with Return a dec svc len mt sm_def show ?thesis
              by (auto simp: ServeHTTP_params_error sendError_def)
          next
            case (Inr decoded)
            obtain result err
              where f: "m_Func (mt_method mtype) (s_rcvr service # decoded) = (result, err)"
              by (cases "m_Func (mt_method mtype) (s_rcvr service # decoded)")
            have r: "response req (result, err) =
                \<lparr>resp_Id = req_Id req,
                 resp_Result = (if err \<noteq> None \<and> err \<noteq> Some [] then None else result),
                 resp_Error = (if err \<noteq> None \<and> err \<noteq> Some [] then err else None)\<rparr>"
              by (cases err) (auto simp: response_def)
            have "acts =
                [Lookup (sm ! 0), Call (sm ! 0) (sm ! 1) (s_rcvr service # decoded),
                 SetHeader ''Content-Type'' ''application/json; charset=utf-8'',
                 Encode \<lparr>resp_Id = req_Id req,
                   resp_Result = (if err \<noteq> None \<and> err \<noteq> Some [] then None else result),
                   resp_Error = (if err \<noteq> None \<and> err \<noteq> Some [] then err else None)\<rparr>]"
              using Inr Return a dec svc len mt sm_def f r
              by (simp add: ServeHTTP_invoked)
            then show ?thesis
              using Inr Return dec svc len mt f
              unfolding sm_def
              by (intro disjI2 exI [of _ req] exI [of _ service] exI [of _ mtype]
                  exI [of _ decoded]) simp
          qed
        qed
      qed
    qed
  qed
qed

text \<open>
  C4 on the test server: \<open>Fail\<close> (error only), \<open>Add\<close> (result only) and an unknown method
  (the fixed error body, no call).
\<close>

theorem C4_result_or_error_witness:
  \<open>m_Func Fail [OtherValue typeTestService ''0''] = (Some (StringValue ''partial''), Some ''boom'')
   \<and> snd (ServeHTTP testlib testServer ''{"jsonrpc": "2.0", "method":"TestService.Fail","params":[], "id":0}'')
     = ([Lookup ''TestService'', Call ''TestService'' ''Fail'' [OtherValue typeTestService ''0''],
         jsonHeader,
         Encode \<lparr>resp_Id = Some ''0'', resp_Result = None, resp_Error = Some ''boom''\<rparr>],
        Return ())
   \<and> m_Func Add [OtherValue typeTestService ''0'', Float64Value 40, Float64Value 2]
     = (Some (Float64Value 42), None)
   \<and> snd (ServeHTTP testlib testServer ''{"jsonrpc": "2.0", "method":"TestService.Add","params":[40, 2], "id":0}'')
     = ([Lookup ''TestService'',
         Call ''TestService'' ''Add'' [OtherValue typeTestService ''0'', Float64Value 40, Float64Value 2],
         jsonHeader,
         Encode \<lparr>resp_Id = Some ''0'', resp_Result = Some (Float64Value 42), resp_Error = None\<rparr>],
        Return ())
   \<and> snd (ServeHTTP testlib testServer ''{"jsonrpc": "2.0", "method":"TestService.NonExistent","params":[40, 2], "id":7}'')
     = ([Lookup ''TestService'', jsonHeader,
         Write ''{"jsonrpc": "2.0", "id":null, "error":"Method not found."}''],
        Return ())\<close>
proof -
  let ?req = "\<lparr>req_Id = Some ''0'', req_Method = ''TestService.Fail'', req_Params = Some ''[]''\<rparr>"
  let ?req' = "\<lparr>req_Id = Some ''0'', req_Method = ''TestService.Add'', req_Params = Some ''[40, 2]''\<rparr>"
  let ?service = "the (serviceMap testServer ''TestService'')"
  let ?Fail = "\<lparr>mt_method = Fail, mt_argTypes = [],
      mt_returnType = stringType, mt_numCalls = 0\<rparr> :: real methodType"
  let ?Add = "\<lparr>mt_method = Add, mt_argTypes = [float64Type, float64Type],
      mt_returnType = float64Type, mt_numCalls = 0\<rparr> :: real methodType"
  have p: \<open>Decode testlib ''{"jsonrpc": "2.0", "method":"TestService.Fail","params":[], "id":0}'' = Inr ?req
      \<and> serviceMap testServer (Split (req_Method ?req) (CHR ''.'') ! 0) = Some ?service
      \<and> 1 < length (Split (req_Method ?req) (CHR ''.''))
      \<and> map_of (s_method ?service) (Split (req_Method ?req) (CHR ''.'') ! 1) = Some ?Fail
      \<and> getParams testlib ?req (mt_argTypes ?Fail) = Return (Inr [])
      \<and> m_Func (mt_method ?Fail) (s_rcvr ?service # [])
          = (Some (StringValue ''partial''), Some ''boom'')\<close>
    by (simp add: eval_defs test_defs)
  have p': \<open>Decode testlib ''{"jsonrpc": "2.0", "method":"TestService.Add","params":[40, 2], "id":0}'' = Inr ?req'
      \<and> serviceMap testServer (Split (req_Method ?req') (CHR ''.'') ! 0) = Some ?service
      \<and> 1 < length (Split (req_Method ?req') (CHR ''.''))
      \<and> map_of (s_method ?service) (Split (req_Method ?req') (CHR ''.'') ! 1) = Some ?Add
      \<and> getParams testlib ?req' (mt_argTypes ?Add) = Return (Inr [Float64Value 40, Float64Value 2])
      \<and> m_Func (mt_method ?Add) (s_rcvr ?service # [Float64Value 40, Float64Value 2])
          = (Some (Float64Value 42), None)\<close>
    by (simp add: eval_defs test_defs)
  have e: \<open>snd (ServeHTTP testlib testServer ''{"jsonrpc": "2.0", "method":"TestService.NonExistent","params":[40, 2], "id":7}'')
     = ([Lookup ''TestService'', jsonHeader,
         Write ''{"jsonrpc": "2.0", "id":null, "error":"Method not found."}''],
        Return ())\<close>
    by (simp add: eval_defs test_defs)
  have f: "m_Func Fail [OtherValue typeTestService ''0''] = (Some (StringValue ''partial''), Some ''boom'')"
    "m_Func Add [OtherValue typeTestService ''0'', Float64Value 40, Float64Value 2]
     = (Some (Float64Value 42), None)"
    by (simp_all add: test_defs)
  note a = C4_result_or_error [THEN conjunct1, THEN spec, THEN spec, THEN spec, THEN spec,
      THEN spec, THEN spec, THEN mp, OF p]
  note b = C4_result_or_error [THEN conjunct1, THEN spec, THEN spec, THEN spec, THEN spec,
      THEN spec, THEN spec, THEN mp, OF p']
  note c = C4_result_or_error [THEN conjunct2, THEN spec, THEN mp, OF e]
  from a b c e f show ?thesis
    by (simp add: testServer_def)
qed

subsection \<open>C5\<close>

text \<open>
  C5: for a request whose \<^verbatim>\<open>params\<close> decode to a list of raw values, \<^verbatim>\<open>getParams\<close> fails
  with \<^verbatim>\<open>Incorrect number of parameters.\<close> if and only if the length of that list differs from
  the number of argument types of the method; and a dispatch that fails so writes this
  error and nothing else: it calls no method and leaves the server as it was.
\<close>

theorem C5_arity:
  fixes L :: "'f golib"
  assumes "req_Params req = Some raw" and "Unmarshal_params L raw = Inr params"
  shows \<open>(getParams L req argTypes = Return (Inl ''Incorrect number of parameters.'')
            \<longleftrightarrow> length params \<noteq> length argTypes)
     \<and> (\<forall>(server :: 'f Server) body service mtype.
          Decode L body = Inr req
          \<and> serviceMap server (Split (req_Method req) (CHR ''.'') ! 0) = Some service
          \<and> 1 < length (Split (req_Method req) (CHR ''.''))
          \<and> map_of (s_method service) (Split (req_Method req) (CHR ''.'') ! 1) = Some mtype
          \<and> length params \<noteq> length (mt_argTypes mtype) \<longrightarrow>
          ServeHTTP L server body =
            (server,
             [Lookup (Split (req_Method req) (CHR ''.'') ! 0),
              SetHeader ''Content-Type'' ''application/json; charset=utf-8'',
              Write ''{"jsonrpc": "2.0", "id":null, "error":"Incorrect number of parameters."}''],
             Return ()))\<close>
proof (intro conjI allI impI)
  show "getParams L req argTypes = Return (Inl ''Incorrect number of parameters.'')
            \<longleftrightarrow> length params \<noteq> length argTypes"
    using assms by (rule getParams_arity)
next
  fix server :: "'f Server" and body service mtype
  assume p: "Decode L body = Inr req
          \<and> serviceMap server (Split (req_Method req) (CHR ''.'') ! 0) = Some service
          \<and> 1 < length (Split (req_Method req) (CHR ''.''))
          \<and> map_of (s_method service) (Split (req_Method req) (CHR ''.'') ! 1) = Some mtype
          \<and> length params \<noteq> length (mt_argTypes mtype)"
  then have "getParams L req (mt_argTypes mtype) = Return (Inl ''Incorrect number of parameters.'')"
    using assms by (simp add: getParams_arity)
  with p show \<open>ServeHTTP L server body =
            (server,
             [Lookup (Split (req_Method req) (CHR ''.'') ! 0),
              SetHeader ''Content-Type'' ''application/json; charset=utf-8'',
              Write ''{"jsonrpc": "2.0", "id":null, "error":"Incorrect number of parameters."}''],
             Return ())\<close>
    by (simp add: ServeHTTP_params_error sendError_def)
qed

text \<open>
  C5 on the test server: \<^verbatim>\<open>Add\<close> takes two arguments and is sent none; against an empty
  list of argument types the same request does not fail with this message.
\<close>

theorem C5_arity_witness:
  \<open>Unmarshal_params testlib ''[]'' = Inr []
   \<and> getParams testlib
        \<lparr>req_Id = Some ''7'', req_Method = ''TestService.Add'', req_Params = Some ''[]''\<rparr>
        [float64Type, float64Type]
      = Return (Inl ''Incorrect number of parameters.'')
   \<and> getParams testlib
        \<lparr>req_Id = Some ''7'', req_Method = ''TestService.Add'', req_Params = Some ''[]''\<rparr>
        []
      \<noteq> Return (Inl ''Incorrect number of parameters.'')
   \<and> ServeHTTP testlib testServer ''{"jsonrpc": "2.0", "method":"TestService.Add","params":[], "id":7}''
      = (testServer,
         [Lookup ''TestService'', jsonHeader,
          Write ''{"jsonrpc": "2.0", "id":null, "error":"Incorrect number of parameters."}''],
         Return ())\<close>
proof -
  let ?req = "\<lparr>req_Id = Some ''7'', req_Method = ''TestService.Add'', req_Params = Some ''[]''\<rparr>"
  have p: "req_Params ?req = Some ''[]''"
    by simp
  have u: "Unmarshal_params testlib ''[]'' = Inr []"
    by (simp add: testlib_def)
  have d: \<open>Decode testlib ''{"jsonrpc": "2.0", "method":"TestService.Add","params":[], "id":7}'' = Inr ?req\<close>
    by (simp add: testlib_def)
  from C5_arity [OF p u, of "[float64Type, float64Type]"] C5_arity [OF p u, of "[]"] u d
  show ?thesis
    by (simp add: testServer_def)
qed

subsection \<open>C6\<close>

text \<open>
  C6 says that a scalar parameter whose decoded value neither has the target type nor is
  a float for an integer target fails with \<^verbatim>\<open>Type mismatch parameter N.\<close>. For the JSON
  value \<^verbatim>\<open>null\<close> the decoded \<^verbatim>\<open>interface{}\<close> is nil, \<^verbatim>\<open>reflect.NewValue\<close> of it is nil, and
  \<^verbatim>\<open>value.Type()\<close> panics: the request \<^verbatim>\<open>TestService.Add\<close> with \<^verbatim>\<open>[null, 2]\<close> ends in a
  panic and no response. (The lemmas \<open>getParams_arg_ptr\<close> to \<open>getParams_arg_undecoded\<close>
  above give the cases in which the loop body does what C6 says.)
\<close>

theorem C6_null_parameter_panics:
  \<open>Decode testlib ''{"jsonrpc": "2.0", "method":"TestService.Add","params":[null, 2], "id":0}''
     = Inr \<lparr>req_Id = Some ''0'', req_Method = ''TestService.Add'', req_Params = Some ''[null, 2]''\<rparr>
   \<and> Unmarshal_iface testlib ''null'' = Inr GNil
   \<and> getParams_arg testlib 0 (Some ''null'') float64Type
     = Panic ''invalid memory address or nil pointer dereference''
   \<and> ServeHTTP testlib testServer ''{"jsonrpc": "2.0", "method":"TestService.Add","params":[null, 2], "id":0}''
     = (testServer, [Lookup ''TestService''],
        Panic ''invalid memory address or nil pointer dereference'')\<close>
  by (simp add: eval_defs test_defs)

subsection \<open>C7\<close>

text \<open>
  C7: if the request decodes, its service and method are found and \<^verbatim>\<open>getParams\<close>
  succeeds, then afterwards the call counter of that method is its old value plus one
  (in 32 bits) and every other counter is as before, whatever the method returns; in every
  other case the server afterwards is the server before.
\<close>

theorem C7_call_counter:
  "(\<forall>req service mtype decoded.
      Decode L body = Inr req
      \<and> serviceMap server (Split (req_Method req) (CHR ''.'') ! 0) = Some service
      \<and> 1 < length (Split (req_Method req) (CHR ''.''))
      \<and> map_of (s_method service) (Split (req_Method req) (CHR ''.'') ! 1) = Some mtype
      \<and> getParams L req (mt_argTypes mtype) = Return (Inr decoded) \<longrightarrow>
      (\<forall>s m. numCalls (fst (ServeHTTP L server body)) s m =
         (if s = Split (req_Method req) (CHR ''.'') ! 0 \<and> m = Split (req_Method req) (CHR ''.'') ! 1
          then Some (mt_numCalls mtype + 1) else numCalls server s m))
      \<and> numCalls server (Split (req_Method req) (CHR ''.'') ! 0)
           (Split (req_Method req) (CHR ''.'') ! 1) = Some (mt_numCalls mtype))
   \<and> ((\<nexists>req service mtype decoded.
      Decode L body = Inr req
      \<and> serviceMap server (Split (req_Method req) (CHR ''.'') ! 0) = Some service
      \<and> 1 < length (Split (req_Method req) (CHR ''.''))
      \<and> map_of (s_method service) (Split (req_Method req) (CHR ''.'') ! 1) = Some mtype
      \<and> getParams L req (mt_argTypes mtype) = Return (Inr decoded)) \<longrightarrow>
      fst (ServeHTTP L server body) = server)"
proof (intro conjI allI impI)
  fix req service mtype decoded s m
  assume p: "Decode L body = Inr req
      \<and> serviceMap server (Split (req_Method req) (CHR ''.'') ! 0) = Some service
      \<and> 1 < length (Split (req_Method req) (CHR ''.''))
      \<and> map_of (s_method service) (Split (req_Method req) (CHR ''.'') ! 1) = Some mtype
      \<and> getParams L req (mt_argTypes mtype) = Return (Inr decoded)"
  then have "fst (ServeHTTP L server body) = count server (Split (req_Method req) (CHR ''.'') ! 0)
      service (Split (req_Method req) (CHR ''.'') ! 1) mtype"
    by (simp add: ServeHTTP_invoked)
  then show "numCalls (fst (ServeHTTP L server body)) s m =
         (if s = Split (req_Method req) (CHR ''.'') ! 0 \<and> m = Split (req_Method req) (CHR ''.'') ! 1
          then Some (mt_numCalls mtype + 1) else numCalls server s m)"
    using p by (simp add: numCalls_count)
  show "numCalls server (Split (req_Method req) (CHR ''.'') ! 0)
           (Split (req_Method req) (CHR ''.'') ! 1) = Some (mt_numCalls mtype)"
    using p by (simp add: numCalls_def)
next
  assume "\<nexists>req service mtype decoded.
      Decode L body = Inr req
      \<and> serviceMap server (Split (req_Method req) (CHR ''.'') ! 0) = Some service
      \<and> 1 < length (Split (req_Method req) (CHR ''.''))
      \<and> map_of (s_method service) (Split (req_Method req) (CHR ''.'') ! 1) = Some mtype
      \<and> getParams L req (mt_argTypes mtype) = Return (Inr decoded)"
  then show "fst (ServeHTTP L server body) = server"
    by (auto simp: ServeHTTP_def Let_def split: sum.splits option.splits if_splits go.splits)
qed

text \<open>
  C7 on the test server: a call of \<open>Add\<close> counts once for \<open>Add\<close> and not for \<open>Fail\<close>,
  a call of \<open>Fail\<close>, which returns an error, counts once, and a body that does not decode
  leaves the server as it was.
\<close>

theorem C7_call_counter_witness:
  \<open>numCalls testServer ''TestService'' ''Add'' = Some 0
   \<and> numCalls (fst (ServeHTTP testlib testServer
        ''{"jsonrpc": "2.0", "method":"TestService.Add","params":[40, 2], "id":0}''))
        ''TestService'' ''Add'' = Some 1
   \<and> numCalls (fst (ServeHTTP testlib testServer
        ''{"jsonrpc": "2.0", "method":"TestService.Add","params":[40, 2], "id":0}''))
        ''TestService'' ''Fail'' = Some 0
   \<and> numCalls (fst (ServeHTTP testlib testServer
        ''{"jsonrpc": "2.0", "method":"TestService.Fail","params":[], "id":0}''))
        ''TestService'' ''Fail'' = Some 1
   \<and> fst (ServeHTTP testlib testServer
        ''{"jsonrpc": "2.0", "method":"TestService.Add","params":[40, 2], "id":0'') = testServer\<close>
proof -
  let ?req = "\<lparr>req_Id = Some ''0'', req_Method = ''TestService.Add'', req_Params = Some ''[40, 2]''\<rparr>"
  let ?req' = "\<lparr>req_Id = Some ''0'', req_Method = ''TestService.Fail'', req_Params = Some ''[]''\<rparr>"
  let ?service = "the (serviceMap testServer ''TestService'')"
  let ?Add = "\<lparr>mt_method = Add, mt_argTypes = [float64Type, float64Type],
      mt_returnType = float64Type, mt_numCalls = 0\<rparr> :: real methodType"
  let ?Fail = "\<lparr>mt_method = Fail, mt_argTypes = [],
      mt_returnType = stringType, mt_numCalls = 0\<rparr> :: real methodType"
  have p: \<open>Decode testlib ''{"jsonrpc": "2.0", "method":"TestService.Add","params":[40, 2], "id":0}'' = Inr ?req
      \<and> serviceMap testServer (Split (req_Method ?req) (CHR ''.'') ! 0) = Some ?service
      \<and> 1 < length (Split (req_Method ?req) (CHR ''.''))
      \<and> map_of (s_method ?service) (Split (req_Method ?req) (CHR ''.'') ! 1) = Some ?Add
      \<and> getParams testlib ?req (mt_argTypes ?Add) = Return (Inr [Float64Value 40, Float64Value 2])\<close>
    by (simp add: eval_defs test_defs)
  have p': \<open>Decode testlib ''{"jsonrpc": "2.0", "method":"TestService.Fail","params":[], "id":0}'' = Inr ?req'
      \<and> serviceMap testServer (Split (req_Method ?req') (CHR ''.'') ! 0) = Some ?service
      \<and> 1 < length (Split (req_Method ?req') (CHR ''.''))
      \<and> map_of (s_method ?service) (Split (req_Method ?req') (CHR ''.'') ! 1) = Some ?Fail
      \<and> getParams testlib ?req' (mt_argTypes ?Fail) = Return (Inr [])\<close>
    by (simp add: eval_defs test_defs)
  have q: \<open>\<nexists>req service mtype decoded.
      Decode testlib ''{"jsonrpc": "2.0", "method":"TestService.Add","params":[40, 2], "id":0'' = Inr req
      \<and> serviceMap testServer (Split (req_Method req) (CHR ''.'') ! 0) = Some service
      \<and> 1 < length (Split (req_Method req) (CHR ''.''))
      \<and> map_of (s_method service) (Split (req_Method req) (CHR ''.'') ! 1) = Some mtype
      \<and> getParams testlib req (mt_argTypes mtype) = Return (Inr decoded)\<close>
    by (simp add: testlib_def)
  have n: "numCalls testServer ''TestService'' ''Add'' = Some 0"
    "numCalls testServer ''TestService'' ''Fail'' = Some 0"
    by (simp_all add: numCalls_def testServer_def)
  note a = C7_call_counter [THEN conjunct1, THEN spec, THEN spec, THEN spec, THEN spec, THEN mp,
      OF p, THEN conjunct1]
  note b = C7_call_counter [THEN conjunct1, THEN spec, THEN spec, THEN spec, THEN spec, THEN mp,
      OF p', THEN conjunct1]
  note c = C7_call_counter [THEN conjunct2, THEN mp, OF q]
  from a [THEN spec, THEN spec, of "''TestService''" "''Add''"]
    a [THEN spec, THEN spec, of "''TestService''" "''Fail''"]
    b [THEN spec, THEN spec, of "''TestService''" "''Fail''"] c n
  show ?thesis
    by simp
qed

subsection \<open>C8\<close>




subsection \<open>C9\<close>

text \<open>
  C9 says that the method string is split at its first \<^verbatim>\<open>.\<close> and that a string without
  \<^verbatim>\<open>.\<close> fails with \<^verbatim>\<open>Method not found.\<close>. On the test server the string \<^verbatim>\<open>Add\<close> fails with
  \<^verbatim>\<open>Service not found.\<close>, and \<^verbatim>\<open>TestService.Add.More\<close> calls \<open>Add\<close>, although the service
  has no method \<^verbatim>\<open>Add.More\<close>.
\<close>

theorem C9_counterexample:
  \<open>Decode testlib ''{"jsonrpc": "2.0", "method":"Add","params":[40, 2], "id":0}''
     = Inr \<lparr>req_Id = Some ''0'', req_Method = ''Add'', req_Params = Some ''[40, 2]''\<rparr>
   \<and> ServeHTTP testlib testServer ''{"jsonrpc": "2.0", "method":"Add","params":[40, 2], "id":0}''
     = (testServer,
        [Lookup ''Add'', jsonHeader,
         Write ''{"jsonrpc": "2.0", "id":null, "error":"Service not found."}''],
        Return ())
   \<and> Decode testlib ''{"jsonrpc": "2.0", "method":"TestService.Add.More","params":[40, 2], "id":0}''
     = Inr \<lparr>req_Id = Some ''0'', req_Method = ''TestService.Add.More'', req_Params = Some ''[40, 2]''\<rparr>
   \<and> map_of (s_method (the (serviceMap testServer ''TestService''))) ''Add.More'' = None
   \<and> snd (ServeHTTP testlib testServer ''{"jsonrpc": "2.0", "method":"TestService.Add.More","params":[40, 2], "id":0}'')
     = ([Lookup ''TestService'',
         Call ''TestService'' ''Add'' [OtherValue typeTestService ''0'', Float64Value 40, Float64Value 2],
         jsonHeader,
         Encode \<lparr>resp_Id = Some ''0'', resp_Result = Some (Float64Value 42), resp_Error = None\<rparr>],
        Return ())\<close>
  by (simp add: eval_defs test_defs)

text \<open>
  C9, as the code has it. \<^verbatim>\<open>strings.Split\<close> cuts the method string at every \<^verbatim>\<open>.\<close>; the
  service name is the text before the first \<^verbatim>\<open>.\<close> (the whole string if there is none), the
  method name the text between the first \<^verbatim>\<open>.\<close> and the second (or the end). The service is
  looked up first: if it is not registered, with or without a \<^verbatim>\<open>.\<close> in the string, the
  dispatch fails with \<^verbatim>\<open>Service not found.\<close>; if it is registered and the string has a
  \<^verbatim>\<open>.\<close>, an unknown method name fails with \<^verbatim>\<open>Method not found.\<close> and a known one, once
  its parameters decode, is called.
\<close>

theorem C9_split_every_dot:
  assumes "Decode L body = Inr req"
    and "serviceName = takeWhile (\<lambda>c. c \<noteq> CHR ''.'') (req_Method req)"
    and "methodName = takeWhile (\<lambda>c. c \<noteq> CHR ''.'') (tl (dropWhile (\<lambda>c. c \<noteq> CHR ''.'') (req_Method req)))"
  shows \<open>Split (req_Method req) (CHR ''.'') ! 0 = serviceName
     \<and> (CHR ''.'' \<in> set (req_Method req) \<longrightarrow> Split (req_Method req) (CHR ''.'') ! 1 = methodName)
     \<and> (serviceMap server serviceName = None \<longrightarrow>
          ServeHTTP L server body =
            (server,
             [Lookup serviceName, SetHeader ''Content-Type'' ''application/json; charset=utf-8'',
              Write ''{"jsonrpc": "2.0", "id":null, "error":"Service not found."}''],
             Return ()))
     \<and> (\<forall>service. serviceMap server serviceName = Some service
            \<and> CHR ''.'' \<in> set (req_Method req)
            \<and> map_of (s_method service) methodName = None \<longrightarrow>
          ServeHTTP L server body =
            (server,
             [Lookup serviceName, SetHeader ''Content-Type'' ''application/json; charset=utf-8'',
              Write ''{"jsonrpc": "2.0", "id":null, "error":"Method not found."}''],
             Return ()))
     \<and> (\<forall>service mtype decoded. serviceMap server serviceName = Some service
            \<and> CHR ''.'' \<in> set (req_Method req)
            \<and> map_of (s_method service) methodName = Some mtype
            \<and> getParams L req (mt_argTypes mtype) = Return (Inr decoded) \<longrightarrow>
          fst (snd (ServeHTTP L server body)) ! 1
            = Call serviceName methodName (s_rcvr service # decoded))\<close>
proof -
  define sm where "sm = Split (req_Method req) (CHR ''.'')"
  have a: "sm ! 0 = serviceName"
    using assms by (simp add: sm_def Split_first)
  have b: "sm ! 1 = methodName" "1 < length sm" if "CHR ''.'' \<in> set (req_Method req)"
    using that assms Split_single [of "req_Method req" "CHR ''.''"]
    by (simp_all add: sm_def Split_second)
  show ?thesis
    using assms(1) a b
    by (simp add: sm_def [symmetric] ServeHTTP_no_service [OF _ sm_def]
        ServeHTTP_no_method [OF _ sm_def] ServeHTTP_invoked [OF _ sm_def] sendError_def)
qed

text \<open>
  C9 on the test server: the method strings \<^verbatim>\<open>TestService.Add.More\<close>, \<^verbatim>\<open>Add\<close> and
  \<^verbatim>\<open>TestService.NonExistent\<close>.
\<close>

theorem C9_split_every_dot_witness:
  \<open>Split ''TestService.Add.More'' (CHR ''.'') ! 0 = ''TestService''
   \<and> Split ''TestService.Add.More'' (CHR ''.'') ! 1 = ''Add''
   \<and> fst (snd (ServeHTTP testlib testServer
        ''{"jsonrpc": "2.0", "method":"TestService.Add.More","params":[40, 2], "id":0}'')) ! 1
      = Call ''TestService'' ''Add'' [OtherValue typeTestService ''0'', Float64Value 40, Float64Value 2]
   \<and> ServeHTTP testlib testServer ''{"jsonrpc": "2.0", "method":"Add","params":[40, 2], "id":0}''
      = (testServer,
         [Lookup ''Add'', jsonHeader,
          Write ''{"jsonrpc": "2.0", "id":null, "error":"Service not found."}''],
         Return ())
   \<and> ServeHTTP testlib testServer ''{"jsonrpc": "2.0", "method":"TestService.NonExistent","params":[40, 2], "id":7}''
      = (testServer,
         [Lookup ''TestService'', jsonHeader,
          Write ''{"jsonrpc": "2.0", "id":null, "error":"Method not found."}''],
         Return ())\<close>
proof -
  have d1: \<open>Decode testlib ''{"jsonrpc": "2.0", "method":"TestService.Add.More","params":[40, 2], "id":0}''
     = Inr \<lparr>req_Id = Some ''0'', req_Method = ''TestService.Add.More'', req_Params = Some ''[40, 2]''\<rparr>\<close>
    and d2: \<open>Decode testlib ''{"jsonrpc": "2.0", "method":"Add","params":[40, 2], "id":0}''
     = Inr \<lparr>req_Id = Some ''0'', req_Method = ''Add'', req_Params = Some ''[40, 2]''\<rparr>\<close>
    and d3: \<open>Decode testlib ''{"jsonrpc": "2.0", "method":"TestService.NonExistent","params":[40, 2], "id":7}''
     = Inr \<lparr>req_Id = Some ''7'', req_Method = ''TestService.NonExistent'', req_Params = Some ''[40, 2]''\<rparr>\<close>
    by (simp_all add: testlib_def)
  have g: "getParams testlib
      \<lparr>req_Id = Some ''0'', req_Method = ''TestService.Add.More'', req_Params = Some ''[40, 2]''\<rparr>
      [float64Type, float64Type] = Return (Inr [Float64Value 40, Float64Value 2])"
    by (simp add: eval_defs test_defs)
  from C9_split_every_dot [OF d1 refl refl, of testServer]
    C9_split_every_dot [OF d2 refl refl, of testServer]
    C9_split_every_dot [OF d3 refl refl, of testServer] g
  show ?thesis
    by (simp add: testServer_def)
qed

subsection \<open>C10\<close>

text \<open>
  C10: if the request is routed, its parameters decode, and the method returns an error
  that is not nil but whose description is the empty string, the dispatch is a success:
  the envelope has the id of the request, the method's first result as result, and no
  error.
\<close>

theorem C10_empty_description:
  assumes "Decode L body = Inr req"
    and "sm = Split (req_Method req) (CHR ''.'')"
    and "serviceMap server (sm ! 0) = Some service"
    and "1 < length sm"
    and "map_of (s_method service) (sm ! 1) = Some mtype"
    and "getParams L req (mt_argTypes mtype) = Return (Inr decoded)"
    and "m_Func (mt_method mtype) (s_rcvr service # decoded) = (result, Some [])"
  shows "snd (ServeHTTP L server body) =
    ([Lookup (sm ! 0), Call (sm ! 0) (sm ! 1) (s_rcvr service # decoded),
      SetHeader ''Content-Type'' ''application/json; charset=utf-8'',
      Encode \<lparr>resp_Id = req_Id req, resp_Result = result, resp_Error = None\<rparr>],
     Return ())"
  using assms by (simp add: ServeHTTP_invoked response_result)

text \<open>
  C10 on the test server: \<open>Quiet\<close> returns \<^verbatim>\<open>done\<close> and an error with an empty description.
\<close>

theorem C10_empty_description_witness:
  \<open>Decode testlib ''{"jsonrpc": "2.0", "method":"TestService.Quiet","params":[], "id":0}''
     = Inr \<lparr>req_Id = Some ''0'', req_Method = ''TestService.Quiet'', req_Params = Some ''[]''\<rparr>
   \<and> m_Func Quiet [OtherValue typeTestService ''0''] = (Some (StringValue ''done''), Some [])
   \<and> snd (ServeHTTP testlib testServer ''{"jsonrpc": "2.0", "method":"TestService.Quiet","params":[], "id":0}'')
     = ([Lookup ''TestService'', Call ''TestService'' ''Quiet'' [OtherValue typeTestService ''0''],
         jsonHeader,
         Encode \<lparr>resp_Id = Some ''0'', resp_Result = Some (StringValue ''done''), resp_Error = None\<rparr>],
        Return ())\<close>
proof -
  let ?req = "\<lparr>req_Id = Some ''0'', req_Method = ''TestService.Quiet'', req_Params = Some ''[]''\<rparr>"
  let ?mtype = "\<lparr>mt_method = Quiet, mt_argTypes = [],
            mt_returnType = stringType, mt_numCalls = 0\<rparr> :: real methodType"
  have d: \<open>Decode testlib ''{"jsonrpc": "2.0", "method":"TestService.Quiet","params":[], "id":0}'' = Inr ?req\<close>
    by (simp add: testlib_def)
  have sm: "[''TestService'', ''Quiet''] = Split (req_Method ?req) (CHR ''.'')"
    by simp
  have s: "serviceMap testServer ([''TestService'', ''Quiet''] ! 0) = Some (the (serviceMap testServer ''TestService''))"
    by (simp add: testServer_def)
  have l: "1 < length [''TestService'', ''Quiet'']"
    by simp
  have m: "map_of (s_method (the (serviceMap testServer ''TestService''))) ([''TestService'', ''Quiet''] ! 1)
      = Some ?mtype"
    by (simp add: testServer_def)
  have g: "getParams testlib ?req (mt_argTypes ?mtype) = Return (Inr [])"
    by (simp add: eval_defs test_defs)
  have f: "m_Func (mt_method ?mtype) (s_rcvr (the (serviceMap testServer ''TestService'')) # [])
      = (Some (StringValue ''done''), Some [])"
    by (simp add: test_defs)
  from C10_empty_description [OF d sm s l m g f] d f
  show ?thesis
    by (simp add: testServer_def)
qed

end
